theory Spec2Isabelle
  imports Main
begin

section \<open>Python strings\<close>

text \<open>
  A Python \<open>str\<close> is modelled as a \<open>string\<close> whose characters stand for the code points
  0..255 (Latin-1); one \<open>char\<close> is one code point, so \<open>length\<close>, slicing and the searches
  below count what Python counts. Code points above 255 are outside the model.
\<close>

definition isspace :: "char \<Rightarrow> bool" where
  "isspace c =
     (let n = (of_char c :: nat)
      in (9 \<le> n \<and> n \<le> 13) \<or> (28 \<le> n \<and> n \<le> 32) \<or> n = 133 \<or> n = 160)"

definition strip :: "string \<Rightarrow> string" where
  "strip s = rev (dropWhile isspace (rev (dropWhile isspace s)))"

definition rstrip :: "string \<Rightarrow> char \<Rightarrow> string" where
  "rstrip s c = rev (dropWhile (\<lambda>x. x = c) (rev s))"

definition char_lower :: "char \<Rightarrow> char" where
  "char_lower c =
     (let n = (of_char c :: nat)
      in if (65 \<le> n \<and> n \<le> 90) \<or> (192 \<le> n \<and> n \<le> 222 \<and> n \<noteq> 215)
         then char_of (n + 32) else c)"

definition lower :: "string \<Rightarrow> string" where
  "lower s = map char_lower s"

definition startswith :: "string \<Rightarrow> string \<Rightarrow> bool" where
  "startswith s prefix = (take (length prefix) s = prefix)"

definition endswith :: "string \<Rightarrow> string \<Rightarrow> bool" where
  "endswith s suffix =
     (length suffix \<le> length s \<and> drop (length s - length suffix) s = suffix)"

text \<open>\<open>s.rfind(c)\<close>: the highest index at which \<open>c\<close> occurs, \<open>-1\<close> when it does not.\<close>

primrec rfind_from :: "char \<Rightarrow> string \<Rightarrow> int \<Rightarrow> int \<Rightarrow> int" where
  "rfind_from c [] i found = found"
| "rfind_from c (x # xs) i found = rfind_from c xs (i + 1) (if x = c then i else found)"

definition rfind :: "string \<Rightarrow> char \<Rightarrow> int" where
  "rfind s c = rfind_from c s 0 (- 1)"

section \<open>\<open>os.path\<close>\<close>

text \<open>
  The path functions of the standard library the handler calls, in their POSIX form
  (\<open>posixpath\<close>: separator \<open>/\<close>, extension separator \<open>.\<close>).
\<close>

definition basename :: "string \<Rightarrow> string" where
  "basename p = (let i = rfind p (CHR ''/'') + 1 in drop (nat i) p)"

definition dirname :: "string \<Rightarrow> string" where
  "dirname p =
     (let i = rfind p (CHR ''/'') + 1;
          head = take (nat i) p
      in if head \<noteq> [] \<and> head \<noteq> replicate (length head) (CHR ''/'')
         then rstrip head (CHR ''/'') else head)"

definition join :: "string \<Rightarrow> string \<Rightarrow> string" where
  "join a b =
     (if startswith b ''/'' then b
      else if a = [] \<or> endswith a ''/'' then a @ b
      else a @ ''/'' @ b)"

text \<open>
  \<open>splitext\<close> splits at the last dot after the last separator, unless every character
  between the separator and that dot is itself a dot (a leading-dots name has no extension).
  The inner \<open>while\<close> loop looks for the first character that is not a dot.
\<close>

function splitext_loop :: "string \<Rightarrow> int \<Rightarrow> int \<Rightarrow> (string \<times> string) option" where
  "splitext_loop p filenameIndex dotIndex =
     (if filenameIndex < dotIndex
      then (if take 1 (drop (nat filenameIndex) p) \<noteq> ''.''
            then Some (take (nat dotIndex) p, drop (nat dotIndex) p)
            else splitext_loop p (filenameIndex + 1) dotIndex)
      else None)"
  by pat_completeness auto
termination
  by (relation "measure (\<lambda>(p, filenameIndex, dotIndex). nat (dotIndex - filenameIndex))") auto

declare splitext_loop.simps [simp del]

definition splitext :: "string \<Rightarrow> string \<times> string" where
  "splitext p =
     (let sepIndex = rfind p (CHR ''/'');
          dotIndex = rfind p (CHR ''.'')
      in if dotIndex > sepIndex
         then (case splitext_loop p (sepIndex + 1) dotIndex of
                 Some r \<Rightarrow> r
               | None \<Rightarrow> (p, []))
         else (p, []))"

section \<open>Events, exceptions, the log and the world outside\<close>

record event =
  src_path :: string
  is_directory :: bool

datatype level = DEBUG | INFO | ERROR

text \<open>
  The exception classes the handlers of the program tell apart, each with its message.
  \<open>OSError\<close> stands for itself and its subclasses (\<open>FileNotFoundError\<close>,
  \<open>PermissionError\<close>), \<open>RuntimeError\<close> for every other subclass of \<open>Exception\<close>.
\<close>

datatype exn =
    CalledProcessError string
  | OSError string
  | EOFError string
  | RuntimeError string

fun exn_str :: "exn \<Rightarrow> string" where
  "exn_str (CalledProcessError m) = m"
| "exn_str (OSError m) = m"
| "exn_str (EOFError m) = m"
| "exn_str (RuntimeError m) = m"

fun is_CalledProcessError :: "exn \<Rightarrow> bool" where
  "is_CalledProcessError (CalledProcessError m) = True"
| "is_CalledProcessError e = False"

fun is_OSError :: "exn \<Rightarrow> bool" where
  "is_OSError (OSError m) = True"
| "is_OSError e = False"

text \<open>The calls that leave the program, recorded in the order they are made.\<close>

datatype call =
    NamedTemporaryFile string
  | SubprocessRun "string list"
  | Makedirs string
  | ConvertFile string string
  | Remove string
  | Schedule string
  | ObserverStart
  | ObserverStop
  | ObserverJoin
  | CleanupOldLogs

record state =
  logged :: "(level \<times> string) list"
  calls :: "call list"
  paths :: "string set"
  watches :: "string list"

text \<open>
  What the outside world answers: the name the temporary file gets (or the exception raised
  instead), what the child process does, which paths \<open>os.makedirs\<close> and \<open>os.remove\<close> fail
  on, what pandoc returns and whether it leaves an output file, what
  \<open>observer.schedule\<close> raises for a root and what \<open>observer.start\<close> raises, and at
  which turn of the waiting loop the operator interrupts. The observer of
  \<open>monitor_directory\<close> is not running while the roots are scheduled: \<open>schedule\<close> then
  only registers the watch, and a root that does not exist is reported by \<open>start\<close>, which
  opens the watched paths.
\<close>

datatype child = Raises exn | Exits int string string

record env =
  tempfile_name :: "exn + string"
  child_process :: child
  makedirs_error :: "string \<Rightarrow> exn option"
  convert_file_result :: "exn + string"
  convert_file_writes :: bool
  remove_error :: "string \<Rightarrow> exn option"
  schedule_error :: "string \<Rightarrow> exn option"
  start_error :: "exn option"
  keyboard_interrupt :: "nat \<Rightarrow> bool"

datatype completed = CompletedProcess (returncode: int) (stdout: string) (stderr: string)

definition logger :: "level \<Rightarrow> string \<Rightarrow> state \<Rightarrow> state" where
  "logger lvl msg s = s\<lparr>logged := logged s @ [(lvl, msg)]\<rparr>"

definition called :: "call \<Rightarrow> state \<Rightarrow> state" where
  "called c s = s\<lparr>calls := calls s @ [c]\<rparr>"

text \<open>
  \<open>tempfile.NamedTemporaryFile(delete=False, suffix=...)\<close>: a new file whose name ends
  with the suffix; it stays on disk when the handle is closed.
\<close>

definition NamedTemporaryFile_keep :: "env \<Rightarrow> string \<Rightarrow> state \<Rightarrow> (exn + string) \<times> state" where
  "NamedTemporaryFile_keep env suffix s =
     (let s' = called (NamedTemporaryFile suffix) s
      in case tempfile_name env of
           Inl e \<Rightarrow> (Inl e, s')
         | Inr stem \<Rightarrow> (Inr (stem @ suffix), s'\<lparr>paths := insert (stem @ suffix) (paths s')\<rparr>))"

text \<open>
  \<open>subprocess.run(args, check=...)\<close>: the exception of a child that could not be run or
  whose output could not be decoded is passed on; a non-zero exit status becomes
  \<open>CalledProcessError\<close> only when \<open>check\<close> is set.
\<close>

definition subprocess_run :: "env \<Rightarrow> string list \<Rightarrow> bool \<Rightarrow> state \<Rightarrow> (exn + completed) \<times> state" where
  "subprocess_run env args check s =
     (let s' = called (SubprocessRun args) s
      in case child_process env of
           Raises e \<Rightarrow> (Inl e, s')
         | Exits rc out err \<Rightarrow>
             if check \<and> rc \<noteq> 0
             then (Inl (CalledProcessError ''non-zero exit status''), s')
             else (Inr (CompletedProcess rc out err), s'))"

definition os_path_exists :: "string \<Rightarrow> state \<Rightarrow> bool" where
  "os_path_exists p s = (p \<in> paths s)"

definition os_makedirs :: "env \<Rightarrow> string \<Rightarrow> state \<Rightarrow> exn option \<times> state" where
  "os_makedirs env d s =
     (let s' = called (Makedirs d) s
      in if d \<in> paths s' then (Some (OSError ''File exists''), s')
         else case makedirs_error env d of
                Some e \<Rightarrow> (Some e, s')
              | None \<Rightarrow> (None, s'\<lparr>paths := insert d (paths s')\<rparr>))"

definition convert_file :: "env \<Rightarrow> string \<Rightarrow> string \<Rightarrow> state \<Rightarrow> (exn + string) \<times> state" where
  "convert_file env source outputfile s =
     (let s' = called (ConvertFile source outputfile) s;
          s'' = (if convert_file_writes env then s'\<lparr>paths := insert outputfile (paths s')\<rparr> else s')
      in (convert_file_result env, s''))"

definition os_remove :: "env \<Rightarrow> string \<Rightarrow> state \<Rightarrow> exn option \<times> state" where
  "os_remove env p s =
     (let s' = called (Remove p) s
      in if p \<notin> paths s' then (Some (OSError ''No such file or directory''), s')
         else case remove_error env p of
                Some e \<Rightarrow> (Some e, s')
              | None \<Rightarrow> (None, s'\<lparr>paths := paths s' - {p}\<rparr>))"

definition quoted :: "string \<Rightarrow> string" where
  "quoted x = [CHR 0x27] @ x @ [CHR 0x27]"

section \<open>\<open>FileCreationHandler\<close>\<close>

text \<open>
  Each \<open>try\<close> block of \<open>process_new_file\<close> either falls through to the next
  statement, returns from the function in its handler, or lets an exception it does not
  handle leave the function.
\<close>

datatype flow = Next | Return | Raise exn

text \<open>Lines 103-111: the external command. \<open>subprocess.run\<close> is called without \<open>check\<close>.\<close>

definition try_pf_format :: "env \<Rightarrow> string \<Rightarrow> string \<Rightarrow> state \<Rightarrow> flow \<times> state" where
  "try_pf_format env command md_filename s2 =
     (case subprocess_run env [''powershell'', ''-command'', command] False s2 of
        (Inl e, s3) \<Rightarrow>
          if is_CalledProcessError e
          then (Return, logger ERROR (''Error while running pf-format: '' @ exn_str e) s3)
          else (Raise e, s3)
      | (Inr result, s3) \<Rightarrow>
          (let s4 = logger INFO (''Command output: '' @ stdout result) s3;
               s5 = (if stderr result \<noteq> []
                     then logger ERROR (''Command errors: '' @ stderr result) s4 else s4)
           in (Next, logger INFO (''Processing '' @ quoted md_filename @ '' complete.'') s5)))"

text \<open>Lines 119-126: the output directory.\<close>

definition try_makedirs :: "env \<Rightarrow> string \<Rightarrow> state \<Rightarrow> flow \<times> state" where
  "try_makedirs env docx_file_path s =
     (let docx_directory = dirname docx_file_path
      in if \<not> os_path_exists docx_directory s
         then (case os_makedirs env docx_directory s of
                 (Some e, s') \<Rightarrow>
                   if is_OSError e
                   then (Return, logger ERROR (''Error creating directory '' @ docx_directory
                                               @ '': '' @ exn_str e) s')
                   else (Raise e, s')
               | (None, s') \<Rightarrow>
                   (Next, logger INFO (''Created missing directory: '' @ docx_directory) s'))
         else (Next, s))"

text \<open>Lines 129-137: pandoc. The handler catches every \<open>Exception\<close>.\<close>

definition try_convert_file :: "env \<Rightarrow> string \<Rightarrow> string \<Rightarrow> state \<Rightarrow> flow \<times> state" where
  "try_convert_file env md_file_path docx_file_path s =
     (case convert_file env md_file_path docx_file_path s of
        (Inl e, s') \<Rightarrow> (Return, logger ERROR (''Error during conversion: '' @ exn_str e) s')
      | (Inr output, s') \<Rightarrow>
          if output = []
          then (Next, logger INFO (''Conversion to DOCX successful: '' @ docx_file_path) s')
          else (Next, logger ERROR (''Error in conversion: '' @ output) s'))"

text \<open>Lines 140-144: the removal of the temporary file.\<close>

definition try_remove :: "env \<Rightarrow> string \<Rightarrow> state \<Rightarrow> flow \<times> state" where
  "try_remove env md_file_path s =
     (case os_remove env md_file_path s of
        (None, s') \<Rightarrow> (Next, logger INFO (''Temporary .md file deleted: '' @ md_file_path) s')
      | (Some e, s') \<Rightarrow>
          if is_OSError e
          then (Next, logger ERROR (''Error deleting temporary .md file: '' @ exn_str e) s')
          else (Raise e, s'))"

text \<open>
  \<open>process_new_file\<close> returns \<open>None\<close> when the Python function returns and \<open>Some e\<close>
  when the exception \<open>e\<close> leaves it; the state is the world at that moment.
\<close>

definition process_new_file ::
  "env \<Rightarrow> string \<Rightarrow> string \<Rightarrow> string \<Rightarrow> string \<Rightarrow> state \<Rightarrow> exn option \<times> state" where
  "process_new_file env directory_path file_path md_filename md_file_path s0 =
     (let s1 = logger INFO (''Starting processing of file: '' @ file_path) s0;
          command = ''pf-format -i '' @ quoted file_path @ '' -f md -o '' @ quoted md_file_path;
          s2 = logger DEBUG (''Running command: '' @ command) s1
      in case try_pf_format env command md_filename s2 of
           (Raise e, s3) \<Rightarrow> (Some e, s3)
         | (Return, s3) \<Rightarrow> (None, s3)
         | (Next, s3) \<Rightarrow>
             (let s4 = logger INFO (''Converting MD file to DOCX for: '' @ md_filename) s3;
                  docx_filename = fst (splitext file_path) @ ''.docx'';
                  docx_file_path = join directory_path docx_filename
              in case try_makedirs env docx_file_path s4 of
                   (Raise e, s5) \<Rightarrow> (Some e, s5)
                 | (Return, s5) \<Rightarrow> (None, s5)
                 | (Next, s5) \<Rightarrow>
                     (case try_convert_file env md_file_path docx_file_path s5 of
                        (Raise e, s6) \<Rightarrow> (Some e, s6)
                      | (Return, s6) \<Rightarrow> (None, s6)
                      | (Next, s6) \<Rightarrow>
                          (case try_remove env md_file_path s6 of
                             (Raise e, s7) \<Rightarrow> (Some e, s7)
                           | (Return, s7) \<Rightarrow> (None, s7)
                           | (Next, s7) \<Rightarrow> (None, logger INFO ''Monitoring folder...'' s7)))))"

definition on_created :: "env \<Rightarrow> event \<Rightarrow> state \<Rightarrow> state" where
  "on_created env event s0 =
     (let s1 = logger DEBUG (''New file detected: '' @ src_path event) s0
      in if \<not> is_directory event
         then (let file_path = src_path event;
                   filename = basename file_path;
                   directory_path = dirname file_path
               in if endswith (lower filename) ''.docx'' then s1
                  else (let s2 = logger DEBUG (''File created: '' @ filename @ '' in directory: ''
                                               @ directory_path) s1
                        in if endswith (lower filename) ''.xml'' \<and> startswith filename ''config-''
                           then (let s3 = logger INFO (''Processing new XML file: '' @ filename) s2
                                 in case NamedTemporaryFile_keep env ''.md'' s3 of
                                      (Inl e, s4) \<Rightarrow>
                                        logger ERROR (''Error while creating temporary .md file: ''
                                                      @ exn_str e) s4
                                    | (Inr md_file_path, s4) \<Rightarrow>
                                        (let md_filename = basename md_file_path;
                                             s5 = logger INFO (''Temporary .md file created: ''
                                                               @ md_file_path) s4
                                         in case process_new_file env directory_path file_path
                                                   md_filename md_file_path s5 of
                                              (Some e, s6) \<Rightarrow>
                                                logger ERROR (''Error while creating temporary .md file: ''
                                                              @ exn_str e) s6
                                            | (None, s6) \<Rightarrow> s6))
                           else s2))
         else s1)"

text \<open>A job is created when the handler reaches the allocation of the temporary file.\<close>

definition new_calls :: "state \<Rightarrow> state \<Rightarrow> call list" where
  "new_calls s s' = drop (length (calls s)) (calls s')"

definition job_created :: "env \<Rightarrow> event \<Rightarrow> state \<Rightarrow> bool" where
  "job_created env event s =
     (NamedTemporaryFile ''.md'' \<in> set (new_calls s (on_created env event s)))"

text \<open>
  The event filter without its first rule (the early return on \<open>.docx\<close> names), everything
  else as in \<open>on_created\<close>.
\<close>

definition on_created_without_docx_rule :: "env \<Rightarrow> event \<Rightarrow> state \<Rightarrow> state" where
  "on_created_without_docx_rule env event s0 =
     (let s1 = logger DEBUG (''New file detected: '' @ src_path event) s0
      in if \<not> is_directory event
         then (let file_path = src_path event;
                   filename = basename file_path;
                   directory_path = dirname file_path;
                   s2 = logger DEBUG (''File created: '' @ filename @ '' in directory: ''
                                      @ directory_path) s1
               in if endswith (lower filename) ''.xml'' \<and> startswith filename ''config-''
                  then (let s3 = logger INFO (''Processing new XML file: '' @ filename) s2
                        in case NamedTemporaryFile_keep env ''.md'' s3 of
                             (Inl e, s4) \<Rightarrow>
                               logger ERROR (''Error while creating temporary .md file: ''
                                             @ exn_str e) s4
                           | (Inr md_file_path, s4) \<Rightarrow>
                               (let md_filename = basename md_file_path;
                                    s5 = logger INFO (''Temporary .md file created: ''
                                                      @ md_file_path) s4
                                in case process_new_file env directory_path file_path
                                          md_filename md_file_path s5 of
                                     (Some e, s6) \<Rightarrow>
                                       logger ERROR (''Error while creating temporary .md file: ''
                                                     @ exn_str e) s6
                                   | (None, s6) \<Rightarrow> s6))
                  else s2)
         else s1)"

definition job_created_without_docx_rule :: "env \<Rightarrow> event \<Rightarrow> state \<Rightarrow> bool" where
  "job_created_without_docx_rule env event s =
     (NamedTemporaryFile ''.md'' \<in> set (new_calls s (on_created_without_docx_rule env event s)))"

section \<open>\<open>monitor_directory\<close> and the script\<close>

text \<open>The \<open>for\<close> loop of \<open>monitor_directory\<close>: one \<open>observer.schedule\<close> per root.\<close>

fun schedule_each :: "env \<Rightarrow> string list \<Rightarrow> state \<Rightarrow> exn option \<times> state" where
  "schedule_each env [] s = (None, s)"
| "schedule_each env (path # rest) s =
     (let s1 = called (Schedule path) s
      in case schedule_error env path of
           None \<Rightarrow>
             schedule_each env rest
               (logger INFO (''Monitoring directory: '' @ path @ '' (recursive)'')
                  (s1\<lparr>watches := watches s1 @ [path]\<rparr>))
         | Some e \<Rightarrow>
             if is_OSError e
             then schedule_each env rest
                    (logger ERROR (''Error monitoring directory '' @ path @ '': '' @ exn_str e) s1)
             else (Some e, s1))"

text \<open>
  The \<open>while True: pass\<close> loop ends only when the operator interrupts; with no interrupt
  it never returns.
\<close>

partial_function (option) wait_loop :: "env \<Rightarrow> nat \<Rightarrow> nat option" where
  "wait_loop env n = (if keyboard_interrupt env n then Some n else wait_loop env (n + 1))"

definition monitor_directory :: "env \<Rightarrow> string list \<Rightarrow> state \<Rightarrow> (exn option \<times> state) option" where
  "monitor_directory env paths_to_watch s0 =
     (case schedule_each env paths_to_watch s0 of
        (Some e, s1) \<Rightarrow> Some (Some e, s1)
      | (None, s1) \<Rightarrow>
          (let s2 = called ObserverStart s1
           in case start_error env of
                Some e \<Rightarrow> Some (Some e, s2)
              | None \<Rightarrow>
                  (case wait_loop env 0 of
                     None \<Rightarrow> None
                   | Some n \<Rightarrow> Some (None, called ObserverJoin (called ObserverStop s2)))))"

text \<open>
  The prompt loop reads standard input line by line; reading past its end raises
  \<open>EOFError\<close>, as \<open>input()\<close> does.
\<close>

fun prompt_loop :: "string list \<Rightarrow> string list \<Rightarrow> exn + string list" where
  "prompt_loop [] paths_to_watch = Inl (EOFError ''EOF when reading a line'')"
| "prompt_loop (line # rest) paths_to_watch =
     (let input_path = strip line
      in if input_path \<noteq> [] then prompt_loop rest (paths_to_watch @ [input_path])
         else Inr paths_to_watch)"

text \<open>
  The roots the script holds after its configured list and the interactive entry.
\<close>

definition paths_after_entry :: "string list \<Rightarrow> string list \<Rightarrow> state \<Rightarrow> (exn + string list) \<times> state" where
  "paths_after_entry configured stdin s0 =
     (if configured = []
      then (let s1 = logger INFO
                  ''Enter directories to monitor (one per line). Press Enter on a blank line to finish:'' s0
            in (prompt_loop stdin configured, s1))
      else (Inr configured, s0))"

datatype exit = SystemExit int | Uncaught exn | Finished

fun exit_status :: "exit \<Rightarrow> int" where
  "exit_status (SystemExit n) = n"
| "exit_status (Uncaught e) = 1"
| "exit_status Finished = 0"

text \<open>
  The script body; \<open>configured\<close> is the list literal of the script (empty as shipped).
  \<open>None\<close> means the script never ends.
\<close>

definition main :: "env \<Rightarrow> string list \<Rightarrow> string list \<Rightarrow> state \<Rightarrow> (exit \<times> state) option" where
  "main env configured stdin s0 =
     (case paths_after_entry configured stdin s0 of
        (Inl e, s1) \<Rightarrow> Some (Uncaught e, s1)
      | (Inr paths_to_watch, s1) \<Rightarrow>
          if paths_to_watch = []
          then Some (SystemExit 1, logger ERROR ''No directories provided to monitor. Exiting.'' s1)
          else (case monitor_directory env paths_to_watch s1 of
                  None \<Rightarrow> None
                | Some (Some e, s2) \<Rightarrow> Some (Uncaught e, s2)
                | Some (None, s2) \<Rightarrow> Some (Finished, called CleanupOldLogs s2)))"

section \<open>Concrete worlds\<close>

text \<open>
  A world in which every external call succeeds, a disk with one watched directory, and
  variations of the world in which one external call fails.
\<close>

definition quiet_world :: env where
  "quiet_world =
     \<lparr>tempfile_name = Inr ''/tmp/tmpk3v9'', child_process = Exits 0 ''ok'' [],
      makedirs_error = (\<lambda>d. None), convert_file_result = Inr [], convert_file_writes = True,
      remove_error = (\<lambda>p. None), schedule_error = (\<lambda>p. None), start_error = None,
      keyboard_interrupt = (\<lambda>n. True)\<rparr>"

definition disk :: state where
  "disk = \<lparr>logged = [], calls = [],
            paths = {''/d'', ''/d/config-a.xml'', ''sub'', ''sub/config-a.xml''}, watches = []\<rparr>"

definition created :: "string \<Rightarrow> event" where
  "created p = \<lparr>src_path = p, is_directory = False\<rparr>"

definition world_no_powershell :: env where
  "world_no_powershell =
     quiet_world\<lparr>child_process := Raises (OSError ''powershell not found'')\<rparr>"

definition world_makedirs_denied :: env where
  "world_makedirs_denied =
     quiet_world\<lparr>makedirs_error := (\<lambda>d. Some (OSError ''Permission denied''))\<rparr>"

definition world_exit_1 :: env where
  "world_exit_1 = quiet_world\<lparr>child_process := Exits 1 [] ''pf-format failed''\<rparr>"

definition world_pandoc_raises :: env where
  "world_pandoc_raises =
     quiet_world\<lparr>convert_file_result := Inl (RuntimeError ''Pandoc died with exitcode 1''),
                  convert_file_writes := False\<rparr>"

definition world_stderr :: env where
  "world_stderr = quiet_world\<lparr>child_process := Exits 0 ''ok'' ''warning''\<rparr>"

text \<open>
  A world in which one of the roots does not exist: scheduling it raises nothing, starting
  the observer raises the \<open>OSError\<close> of the missing path.
\<close>

definition world_missing_root :: env where
  "world_missing_root =
     quiet_world\<lparr>start_error := Some (OSError ''No such file or directory'')\<rparr>"

section \<open>Basic facts\<close>

lemma logger_simps [simp]:
  "calls (logger l m s) = calls s" "paths (logger l m s) = paths s"
  "watches (logger l m s) = watches s" "logged (logger l m s) = logged s @ [(l, m)]"
  by (simp_all add: logger_def)

lemma called_simps [simp]:
  "calls (called c s) = calls s @ [c]" "paths (called c s) = paths s"
  "watches (called c s) = watches s" "logged (called c s) = logged s"
  by (simp_all add: called_def)

lemma try_pf_format_calls:
  "try_pf_format env command m s = (r, s') \<Longrightarrow> \<exists>cs. calls s' = calls s @ cs"
  by (auto simp add: try_pf_format_def subprocess_run_def Let_def split: child.splits if_splits)

lemma try_makedirs_calls:
  "try_makedirs env p s = (r, s') \<Longrightarrow> \<exists>cs. calls s' = calls s @ cs"
  by (auto simp add: try_makedirs_def os_makedirs_def os_path_exists_def Let_def split: option.splits if_splits)

lemma try_convert_file_calls:
  "try_convert_file env a b s = (r, s') \<Longrightarrow> \<exists>cs. calls s' = calls s @ cs"
  by (auto simp add: try_convert_file_def convert_file_def Let_def split: sum.splits if_splits)

lemma try_remove_calls:
  "try_remove env p s = (r, s') \<Longrightarrow> \<exists>cs. calls s' = calls s @ cs"
  by (auto simp add: try_remove_def os_remove_def Let_def split: option.splits if_splits)

lemma process_new_file_calls:
  "process_new_file env d f m mp s = (r, s') \<Longrightarrow> \<exists>cs. calls s' = calls s @ cs"
  unfolding process_new_file_def Let_def
  by (auto split: prod.splits flow.splits
      dest!: try_pf_format_calls try_makedirs_calls try_convert_file_calls try_remove_calls)

lemma on_created_rejected:
  "is_directory ev \<or> endswith (lower (basename (src_path ev))) ''.docx''
     \<or> \<not> endswith (lower (basename (src_path ev))) ''.xml''
     \<or> \<not> startswith (basename (src_path ev)) ''config-''
   \<Longrightarrow> calls (on_created env ev s) = calls s"
  by (auto simp add: on_created_def Let_def)

lemma on_created_accepted:
  assumes "\<not> is_directory ev" "\<not> endswith (lower (basename (src_path ev))) ''.docx''"
    "endswith (lower (basename (src_path ev))) ''.xml''" "startswith (basename (src_path ev)) ''config-''"
  shows "\<exists>cs. calls (on_created env ev s) = calls s @ NamedTemporaryFile ''.md'' # cs"
proof (cases "tempfile_name env")
  case (Inl e)
  with assms show ?thesis
    by (simp add: on_created_def Let_def NamedTemporaryFile_keep_def)
next
  case (Inr stem)
  let ?s5 = "logger INFO (''Temporary .md file created: '' @ stem @ ''.md'')
      ((called (NamedTemporaryFile ''.md'') (logger INFO (''Processing new XML file: '' @ basename (src_path ev))
         (logger DEBUG (''File created: '' @ basename (src_path ev) @ '' in directory: '' @ dirname (src_path ev))
           (logger DEBUG (''New file detected: '' @ src_path ev) s))))
        \<lparr>paths := insert (stem @ ''.md'') (paths s)\<rparr>)"
  obtain r s' where p: "process_new_file env (dirname (src_path ev)) (src_path ev)
      (basename (stem @ ''.md'')) (stem @ ''.md'') ?s5 = (r, s')"
    by (cases "process_new_file env (dirname (src_path ev)) (src_path ev)
      (basename (stem @ ''.md'')) (stem @ ''.md'') ?s5") 
  from process_new_file_calls [OF p] obtain cs where cs: "calls s' = calls ?s5 @ cs" by blast
  from assms Inr p cs show ?thesis
    by (cases r) (simp_all add: on_created_def Let_def NamedTemporaryFile_keep_def)
qed

lemma job_created_accepted:
  assumes "\<not> is_directory ev" "\<not> endswith (lower (basename (src_path ev))) ''.docx''"
    "endswith (lower (basename (src_path ev))) ''.xml''" "startswith (basename (src_path ev)) ''config-''"
  shows "job_created env ev s"
proof -
  obtain cs where "calls (on_created env ev s) = calls s @ NamedTemporaryFile ''.md'' # cs"
    using on_created_accepted [OF assms] by blast
  then show ?thesis by (simp add: job_created_def new_calls_def)
qed

lemma job_created_rejected:
  assumes "is_directory ev \<or> endswith (lower (basename (src_path ev))) ''.docx''
     \<or> \<not> endswith (lower (basename (src_path ev))) ''.xml''
     \<or> \<not> startswith (basename (src_path ev)) ''config-''"
  shows "\<not> job_created env ev s"
proof -
  have "calls (on_created env ev s) = calls s"
    using on_created_rejected [OF assms] .
  then show ?thesis by (simp add: job_created_def new_calls_def)
qed

lemma endswith_last: "endswith x suf \<Longrightarrow> suf \<noteq> [] \<Longrightarrow> last x = last suf"
  by (metis endswith_def last_drop drop_eq_Nil not_le)

lemma xml_not_docx: "endswith x ''.xml'' \<Longrightarrow> \<not> endswith x ''.docx''"
proof
  assume a: "endswith x ''.xml''" and b: "endswith x ''.docx''"
  from endswith_last [OF a] have "last x = CHR ''l''" by simp
  moreover from endswith_last [OF b] have "last x = CHR ''x''" by simp
  ultimately show False by simp
qed

lemma without_docx_rule_same:
  "\<not> endswith (lower (basename (src_path ev))) ''.docx'' \<Longrightarrow>
   on_created_without_docx_rule env ev s = on_created env ev s"
  by (simp add: on_created_without_docx_rule_def on_created_def Let_def)

lemma without_docx_rule_docx:
  "endswith (lower (basename (src_path ev))) ''.docx'' \<Longrightarrow>
   calls (on_created_without_docx_rule env ev s) = calls s"
  using xml_not_docx [of "lower (basename (src_path ev))"]
  by (auto simp add: on_created_without_docx_rule_def Let_def)

lemma try_pf_format_exits:
  "child_process env = Exits rc out err \<Longrightarrow>
   try_pf_format env command md_filename s =
     (Next, logger INFO (''Processing '' @ quoted md_filename @ '' complete.'')
        ((if err \<noteq> [] then logger ERROR (''Command errors: '' @ err) else (\<lambda>t. t))
           (logger INFO (''Command output: '' @ out)
              (called (SubprocessRun [''powershell'', ''-command'', command]) s))))"
  by (simp add: try_pf_format_def subprocess_run_def Let_def)

lemma try_makedirs_ok:
  "dirname p \<in> paths s \<or> makedirs_error env (dirname p) = None \<Longrightarrow>
   \<exists>s'. try_makedirs env p s = (Next, s') \<and> set (logged s) \<subseteq> set (logged s')
        \<and> dirname p \<in> paths s'"
  by (auto simp add: try_makedirs_def os_makedirs_def os_path_exists_def Let_def)

lemma try_convert_file_called:
  "try_convert_file env a b s = (r, s') \<Longrightarrow>
     (r = Next \<or> r = Return) \<and> ConvertFile a b \<in> set (calls s')
      \<and> set (logged s) \<subseteq> set (logged s')"
  by (auto simp add: try_convert_file_def convert_file_def Let_def split: sum.splits if_splits)

lemma try_remove_mono:
  "try_remove env p s = (r, s') \<Longrightarrow>
     set (logged s) \<subseteq> set (logged s') \<and> set (calls s) \<subseteq> set (calls s')"
  by (auto simp add: try_remove_def os_remove_def Let_def split: option.splits if_splits)

text \<open>
  For an absolute source path the second argument of \<open>join\<close> is absolute as well, so
  \<open>join\<close> returns it unchanged: the output path is the source path with its extension
  replaced.
\<close>

lemma splitext_loop_Some:
  "splitext_loop p i d = Some r \<Longrightarrow> i < d \<and> r = (take (nat d) p, drop (nat d) p)"
proof (induction p i d rule: splitext_loop.induct)
  case (1 p i d)
  then show ?case
    by (simp add: splitext_loop.simps [of p i d] split: if_splits)
qed

lemma rfind_from_lower: "- 1 \<le> found \<Longrightarrow> 0 \<le> i \<Longrightarrow> - 1 \<le> rfind_from c s i found"
  by (induction s arbitrary: i found) auto

lemma rfind_lower: "- 1 \<le> rfind s c"
  by (simp add: rfind_def rfind_from_lower)

lemma splitext_absolute:
  assumes "startswith p ''/''"
  shows "startswith (fst (splitext p) @ ''.docx'') ''/''"
proof (cases "fst (splitext p) = p")
  case True
  with assms show ?thesis by (cases p) (simp_all add: startswith_def)
next
  case False
  then obtain r where r: "splitext_loop p (rfind p (CHR ''/'') + 1) (rfind p (CHR ''.'')) = Some r"
    and f: "splitext p = r"
    by (auto simp add: splitext_def Let_def split: if_splits option.splits)
  from splitext_loop_Some [OF r] rfind_lower [of p "CHR ''/''"]
  have "0 < rfind p (CHR ''.'')" and "r = (take (nat (rfind p (CHR ''.''))) p, drop (nat (rfind p (CHR ''.''))) p)"
    by auto
  then obtain n where "fst (splitext p) = take (Suc n) p"
    using f by (cases "nat (rfind p (CHR ''.''))") auto
  with assms show ?thesis by (cases p) (simp_all add: startswith_def)
qed

lemma absolute_source_output_path:
  "startswith file_path ''/'' \<Longrightarrow>
   join directory_path (fst (splitext file_path) @ ''.docx'') = fst (splitext file_path) @ ''.docx''"
  using splitext_absolute [of file_path] by (simp add: join_def)

section \<open>The event filter\<close>

text \<open>
  Claim C3. For every creation event, a conversion job is created if and only if the event
  is not for a directory, the lower-cased file name ends with \<open>.xml\<close>, it does not end
  with \<open>.docx\<close>, and the file name starts with \<open>config-\<close>.
\<close>

theorem job_created_iff:
  "job_created env ev s \<longleftrightarrow>
     (\<not> is_directory ev
      \<and> endswith (lower (basename (src_path ev))) ''.xml''
      \<and> \<not> endswith (lower (basename (src_path ev))) ''.docx''
      \<and> startswith (basename (src_path ev)) ''config-'')"
  using job_created_accepted [of ev env s] job_created_rejected [of ev env s] by blast

theorem job_created_iff_witness:
  "job_created quiet_world (created ''/d/config-a.xml'') disk
   \<and> \<not> job_created quiet_world (created ''/d/report.xml'') disk
   \<and> \<not> job_created quiet_world (created ''/d/config-a.txt'') disk
   \<and> \<not> job_created quiet_world (created ''/d/config-b.docx'') disk
   \<and> \<not> job_created quiet_world \<lparr>src_path = ''/d/config-a.xml'', is_directory = True\<rparr> disk"
proof -
  have "\<not> is_directory (created ''/d/config-a.xml'')
      \<and> endswith (lower (basename (src_path (created ''/d/config-a.xml'')))) ''.xml''
      \<and> \<not> endswith (lower (basename (src_path (created ''/d/config-a.xml'')))) ''.docx''
      \<and> startswith (basename (src_path (created ''/d/config-a.xml''))) ''config-''"
    by code_simp
  moreover have "\<not> startswith (basename (src_path (created ''/d/report.xml''))) ''config-''"
    by code_simp
  moreover have "\<not> endswith (lower (basename (src_path (created ''/d/config-a.txt'')))) ''.xml''"
    by code_simp
  moreover have "endswith (lower (basename (src_path (created ''/d/config-b.docx'')))) ''.docx''"
    by code_simp
  ultimately show ?thesis
    using job_created_iff [of quiet_world "created ''/d/config-a.xml''" disk]
      job_created_iff [of quiet_world "created ''/d/report.xml''" disk]
      job_created_iff [of quiet_world "created ''/d/config-a.txt''" disk]
      job_created_iff [of quiet_world "created ''/d/config-b.docx''" disk]
      job_created_iff [of quiet_world "\<lparr>src_path = ''/d/config-a.xml'', is_directory = True\<rparr>" disk]
    by simp
qed

text \<open>
  Claim C9. The prefix check is case-sensitive: an event for a regular file whose name
  starts with \<open>config-\<close> only after lower-casing (such as \<open>Config-a.xml\<close>) creates no job
  and makes no external call, even though its extension is accepted.
\<close>

theorem prefix_check_is_case_sensitive:
  assumes "\<not> is_directory ev"
    and "endswith (lower (basename (src_path ev))) ''.xml''"
    and "startswith (lower (basename (src_path ev))) ''config-''"
    and "\<not> startswith (basename (src_path ev)) ''config-''"
  shows "\<not> job_created env ev s \<and> new_calls s (on_created env ev s) = []"
proof -
  have "calls (on_created env ev s) = calls s"
    using assms(4) on_created_rejected by blast
  then show ?thesis by (simp add: job_created_def new_calls_def)
qed

theorem prefix_check_is_case_sensitive_witness:
  "\<not> job_created quiet_world (created ''/d/Config-a.xml'') disk
   \<and> new_calls disk (on_created quiet_world (created ''/d/Config-a.xml'') disk) = []"
proof -
  have "\<not> is_directory (created ''/d/Config-a.xml'')"
    and "endswith (lower (basename (src_path (created ''/d/Config-a.xml'')))) ''.xml''"
    and "startswith (lower (basename (src_path (created ''/d/Config-a.xml'')))) ''config-''"
    and "\<not> startswith (basename (src_path (created ''/d/Config-a.xml''))) ''config-''"
    by code_simp+
  then show ?thesis
    by (rule prefix_check_is_case_sensitive)
qed

text \<open>
  Claim C10. The rule that rejects \<open>.docx\<close> names is redundant: the handler without it
  creates a job for exactly the same events, since a name whose lower-case form ends with
  \<open>.xml\<close> cannot end with \<open>.docx\<close>.
\<close>

theorem docx_rule_redundant:
  "job_created_without_docx_rule env ev s = job_created env ev s"
proof (cases "endswith (lower (basename (src_path ev))) ''.docx''")
  case True
  then have "calls (on_created_without_docx_rule env ev s) = calls s"
    and "calls (on_created env ev s) = calls s"
    using without_docx_rule_docx on_created_rejected by blast+
  then show ?thesis
    by (simp add: job_created_without_docx_rule_def job_created_def new_calls_def)
next
  case False
  then show ?thesis
    by (simp add: job_created_without_docx_rule_def job_created_def without_docx_rule_same)
qed

theorem docx_rule_redundant_witness:
  "job_created_without_docx_rule quiet_world (created ''/d/config-a.xml'') disk
   \<and> \<not> job_created_without_docx_rule quiet_world (created ''/d/config-b.docx'') disk"
proof -
  have "\<not> is_directory (created ''/d/config-a.xml'')"
    and "\<not> endswith (lower (basename (src_path (created ''/d/config-a.xml'')))) ''.docx''"
    and "endswith (lower (basename (src_path (created ''/d/config-a.xml'')))) ''.xml''"
    and "startswith (basename (src_path (created ''/d/config-a.xml''))) ''config-''"
    by code_simp+
  then have "job_created quiet_world (created ''/d/config-a.xml'') disk"
    by (rule job_created_accepted)
  moreover have "endswith (lower (basename (src_path (created ''/d/config-b.docx'')))) ''.docx''"
    by code_simp
  then have "\<not> job_created quiet_world (created ''/d/config-b.docx'') disk"
    using job_created_rejected by blast
  ultimately show ?thesis
    using docx_rule_redundant [of quiet_world "created ''/d/config-a.xml''" disk]
      docx_rule_redundant [of quiet_world "created ''/d/config-b.docx''" disk]
    by simp
qed

section \<open>The pipeline\<close>

text \<open>
  Claim C6. When the child process exits (whatever its status) with a non-empty standard
  error, the text is logged at level ERROR and the job goes on: provided the output
  directory exists or can be created, pandoc is called on the temporary file and the
  derived output path.
\<close>

theorem stderr_alone_does_not_abort:
  assumes child: "child_process env = Exits rc out err"
    and err: "err \<noteq> []"
    and docx: "docx_file_path = join directory_path (fst (splitext file_path) @ ''.docx'')"
    and dir: "dirname docx_file_path \<in> paths s
              \<or> makedirs_error env (dirname docx_file_path) = None"
  shows "(ERROR, ''Command errors: '' @ err)
           \<in> set (logged (snd (process_new_file env directory_path file_path md_filename md_file_path s)))
       \<and> ConvertFile md_file_path docx_file_path
           \<in> set (calls (snd (process_new_file env directory_path file_path md_filename md_file_path s)))"
proof -
  let ?command = "''pf-format -i '' @ quoted file_path @ '' -f md -o '' @ quoted md_file_path"
  let ?s2 = "logger DEBUG (''Running command: '' @ ?command)
            (logger INFO (''Starting processing of file: '' @ file_path) s)"
  obtain s3 where b1: "try_pf_format env ?command md_filename ?s2 = (Next, s3)"
    and l3: "(ERROR, ''Command errors: '' @ err) \<in> set (logged s3)"
    and p3: "paths s3 = paths s"
    using try_pf_format_exits [OF child, of ?command md_filename ?s2] err
    by simp
  let ?s4 = "logger INFO (''Converting MD file to DOCX for: '' @ md_filename) s3"
  have "dirname docx_file_path \<in> paths ?s4 \<or> makedirs_error env (dirname docx_file_path) = None"
    using dir p3 by simp
  from try_makedirs_ok [OF this] obtain s5
    where b2: "try_makedirs env docx_file_path ?s4 = (Next, s5)"
      and l5: "set (logged ?s4) \<subseteq> set (logged s5)" by blast
  obtain r6 s6 where b3: "try_convert_file env md_file_path docx_file_path s5 = (r6, s6)"
    by (cases "try_convert_file env md_file_path docx_file_path s5")
  from try_convert_file_called [OF b3]
  have r6: "r6 = Next \<or> r6 = Return"
    and c6: "ConvertFile md_file_path docx_file_path \<in> set (calls s6)"
    and l6: "set (logged s5) \<subseteq> set (logged s6)" by blast+
  have l6': "(ERROR, ''Command errors: '' @ err) \<in> set (logged s6)"
    using l3 l5 l6 by auto
  obtain r7 s7 where b4: "try_remove env md_file_path s6 = (r7, s7)"
    by (cases "try_remove env md_file_path s6")
  from try_remove_mono [OF b4] l6' c6
  have l7: "(ERROR, ''Command errors: '' @ err) \<in> set (logged s7)"
    and c7: "ConvertFile md_file_path docx_file_path \<in> set (calls s7)" by auto
  have unfold: "process_new_file env directory_path file_path md_filename md_file_path s =
      (case r6 of Return \<Rightarrow> (None, s6)
       | Next \<Rightarrow> (case r7 of Raise e \<Rightarrow> (Some e, s7) | Return \<Rightarrow> (None, s7)
                   | Next \<Rightarrow> (None, logger INFO ''Monitoring folder...'' s7))
       | Raise e \<Rightarrow> (Some e, s6))"
    unfolding process_new_file_def Let_def docx [symmetric] b1 prod.case flow.case b2 b3 b4
    by (simp split: flow.splits)
  show ?thesis
    unfolding unfold using r6 l6' c6 l7 c7 by (auto split: flow.splits)
qed

theorem stderr_alone_does_not_abort_witness:
  "(ERROR, ''Command errors: warning'')
     \<in> set (logged (snd (process_new_file world_stderr ''/d'' ''/d/config-a.xml''
                            ''tmpk3v9.md'' ''/tmp/tmpk3v9.md'' disk)))
   \<and> ConvertFile ''/tmp/tmpk3v9.md'' ''/d/config-a.docx''
     \<in> set (calls (snd (process_new_file world_stderr ''/d'' ''/d/config-a.xml''
                            ''tmpk3v9.md'' ''/tmp/tmpk3v9.md'' disk)))"
proof -
  have a: "child_process world_stderr = Exits 0 ''ok'' ''warning''"
    by (simp add: world_stderr_def)
  have b: "''warning'' \<noteq> []" by simp
  have c: "''/d/config-a.docx'' = join ''/d'' (fst (splitext ''/d/config-a.xml'') @ ''.docx'')"
    by code_simp
  have d: "dirname ''/d/config-a.docx'' \<in> paths disk
      \<or> makedirs_error world_stderr (dirname ''/d/config-a.docx'') = None"
    by code_simp
  show ?thesis
    using stderr_alone_does_not_abort [OF a b c d, of "''tmpk3v9.md''" "''/tmp/tmpk3v9.md''"]
    by simp
qed

text \<open>
  Claim C1. The temporary file is removed on every exit path of the job. The code removes it
  only on the path that falls through all three \<open>try\<close> blocks: when the child process
  cannot be launched, and when the output directory cannot be created, the handler ends
  with the temporary file still on disk and without a call of \<open>os.remove\<close>.
\<close>

theorem temporary_file_left_behind:
  "''/tmp/tmpk3v9.md'' \<in> paths (on_created world_no_powershell (created ''/d/config-a.xml'') disk)
   \<and> Remove ''/tmp/tmpk3v9.md''
       \<notin> set (calls (on_created world_no_powershell (created ''/d/config-a.xml'') disk))
   \<and> ''/tmp/tmpk3v9.md'' \<in> paths (on_created world_makedirs_denied (created ''/gone/config-a.xml'') disk)
   \<and> Remove ''/tmp/tmpk3v9.md''
       \<notin> set (calls (on_created world_makedirs_denied (created ''/gone/config-a.xml'') disk))
   \<and> ''/tmp/tmpk3v9.md'' \<notin> paths (on_created quiet_world (created ''/d/config-a.xml'') disk)"
  by code_simp

text \<open>
  Claim C2. A failing child process aborts the job before stage 2. The code calls
  \<open>subprocess.run\<close> without \<open>check\<close>, so an exit status of 1 raises nothing: pandoc is
  called and the output file is written.
\<close>

theorem nonzero_exit_runs_stage2:
  "ConvertFile ''/tmp/tmpk3v9.md'' ''/d/config-a.docx''
     \<in> set (calls (on_created world_exit_1 (created ''/d/config-a.xml'') disk))
   \<and> ''/d/config-a.docx'' \<in> paths (on_created world_exit_1 (created ''/d/config-a.xml'') disk)
   \<and> ''/d/config-a.docx'' \<notin> paths disk"
  by code_simp

text \<open>
  Claim C4. When stage 2 fails the temporary file is removed. When pandoc raises, the
  handler of the \<open>try\<close> block returns: the temporary file stays on disk and
  \<open>os.remove\<close> is not called.
\<close>

theorem temporary_file_left_when_pandoc_raises:
  "ConvertFile ''/tmp/tmpk3v9.md'' ''/d/config-a.docx''
     \<in> set (calls (on_created world_pandoc_raises (created ''/d/config-a.xml'') disk))
   \<and> ''/tmp/tmpk3v9.md'' \<in> paths (on_created world_pandoc_raises (created ''/d/config-a.xml'') disk)
   \<and> Remove ''/tmp/tmpk3v9.md''
       \<notin> set (calls (on_created world_pandoc_raises (created ''/d/config-a.xml'') disk))"
  by code_simp

text \<open>
  Claim C5. The output path is the directory of the source file joined with its base name
  and \<open>.docx\<close>. The code joins the directory with the whole source path (extension
  replaced), so for the relative path \<open>sub/config-a.xml\<close> the directory appears twice:
  \<open>sub/sub\<close> is created and pandoc writes \<open>sub/sub/config-a.docx\<close>.
\<close>

theorem relative_path_output_misplaced:
  "join (dirname ''sub/config-a.xml'') (fst (splitext (basename ''sub/config-a.xml'')) @ ''.docx'')
     = ''sub/config-a.docx''
   \<and> calls (on_created quiet_world (created ''sub/config-a.xml'') disk)
     = [NamedTemporaryFile ''.md'',
        SubprocessRun [''powershell'', ''-command'',
          ''pf-format -i '' @ quoted ''sub/config-a.xml'' @ '' -f md -o '' @ quoted ''/tmp/tmpk3v9.md''],
        Makedirs ''sub/sub'',
        ConvertFile ''/tmp/tmpk3v9.md'' ''sub/sub/config-a.docx'',
        Remove ''/tmp/tmpk3v9.md'']
   \<and> ''sub/sub/config-a.docx'' \<in> paths (on_created quiet_world (created ''sub/config-a.xml'') disk)
   \<and> ''sub/config-a.docx'' \<notin> paths (on_created quiet_world (created ''sub/config-a.xml'') disk)"
  by code_simp

section \<open>Watching the roots\<close>

text \<open>
  Claim C7. A root that cannot be watched is logged and skipped, and the other roots are
  watched. The \<open>try\<close> block of the loop guards \<open>observer.schedule\<close> only. With the
  roots \<open>/a\<close>, \<open>/missing\<close> and \<open>/c\<close>, of which the second does not exist, all three
  are scheduled and logged as monitored, no error is logged, and the \<open>OSError\<close> raised by
  \<open>observer.start\<close> leaves \<open>monitor_directory\<close>: the script ends with status 1 and
  watches nothing.
\<close>

theorem missing_root_stops_monitoring:
  "map_option fst (monitor_directory world_missing_root [''/a'', ''/missing'', ''/c''] disk)
     = Some (Some (OSError ''No such file or directory''))
   \<and> map_option (logged \<circ> snd)
         (monitor_directory world_missing_root [''/a'', ''/missing'', ''/c''] disk)
     = Some [(INFO, ''Monitoring directory: /a (recursive)''),
             (INFO, ''Monitoring directory: /missing (recursive)''),
             (INFO, ''Monitoring directory: /c (recursive)'')]
   \<and> map_option (calls \<circ> snd)
         (monitor_directory world_missing_root [''/a'', ''/missing'', ''/c''] disk)
     = Some [Schedule ''/a'', Schedule ''/missing'', Schedule ''/c'', ObserverStart]
   \<and> map_option fst (main world_missing_root [] [''/a'', ''/missing'', ''/c'', []] disk)
     = Some (Uncaught (OSError ''No such file or directory''))
   \<and> exit_status (Uncaught (OSError ''No such file or directory'')) = 1"
  by code_simp

text \<open>
  Claim C8. If the list of roots is empty after the configured list and the interactive
  entry, the script logs an error and exits with status 1; it schedules no watch and
  does not start the observer.
\<close>

theorem main_refuses_empty_roots:
  assumes "paths_after_entry configured stdin s = (Inr [], s1)"
  shows "\<exists>r s'. main env configured stdin s = Some (r, s') \<and> r = SystemExit 1
           \<and> exit_status r \<noteq> 0 \<and> new_calls s s' = [] \<and> watches s' = watches s"
proof -
  have "calls s1 = calls s \<and> watches s1 = watches s"
    using assms by (auto simp add: paths_after_entry_def Let_def split: if_splits)
  with assms show ?thesis
    by (simp add: main_def new_calls_def)
qed


theorem main_refuses_empty_roots_witness:
  "\<exists>r s'. main quiet_world [] ['' ''] disk = Some (r, s') \<and> r = SystemExit 1
      \<and> exit_status r \<noteq> 0 \<and> new_calls disk s' = [] \<and> watches s' = watches disk"
proof -
  have "paths_after_entry [] ['' ''] disk =
      (Inr [], logger INFO
         ''Enter directories to monitor (one per line). Press Enter on a blank line to finish:'' disk)"
    by (simp add: paths_after_entry_def strip_def isspace_def)
  then show ?thesis
    by (rule main_refuses_empty_roots)
qed

end
